theory Spec2Isabelle
  imports Complex_Main "HOL-Library.Sublist" "HOL-Library.Multiset"
begin

section \<open>Seeded text generation (advanced\_text\_generation.py)\<close>

text \<open>
  Conventions of the embedding.
  \<^item> A Python string is a \<open>string\<close>; one \<open>char\<close> stands for one character of the
    Python string. A float is idealised as a \<open>real\<close>, an int is an \<open>int\<close>.
  \<^item> \<open>character_to_num\<close> and \<open>num_to_character\<close> are dictionaries: partial maps. A
    missing key read with \<open>d[k]\<close> raises \<open>KeyError\<close>.
  \<^item> Everything written to standard output, every call of the model and every draw
    from the categorical distribution is recorded, in order, in a list of events.
    \<open>print(x)\<close> writes \<open>x\<close> followed by a newline, \<open>print(x, end='')\<close> writes \<open>x\<close>.
  \<^item> The model and the tensor library are external. The model is a function from an
    input token and an optional hidden state to a score tensor and a new hidden
    state; the tensor operations (division by a scalar, softmax, sampling from
    \<open>Categorical\<close>) are the fields of a record. The tensor type \<open>'v\<close> and the type \<open>'g\<close>
    of the state of the random generator are left open. These calls are taken to
    return; \<open>model.eval()\<close> and \<open>.cuda()\<close> have no counterpart.
  \<^item> A function that prints, draws or raises returns the events it produced, the
    value or the exception, and the state of the random generator afterwards.
\<close>

datatype error = KeyError | ValueError | ZeroDivisionError | EOFError

datatype ('h, 'v) event =
    Out string
  | Step int "'h option"
  | Draw 'v

record ('v, 'g) torch =
  div_scalar :: "'v \<Rightarrow> real \<Rightarrow> 'v"
  softmax :: "'v \<Rightarrow> 'v"
  sample :: "'v \<Rightarrow> 'g \<Rightarrow> int \<times> 'g"

type_synonym ('h, 'v) rnn = "int \<Rightarrow> 'h option \<Rightarrow> 'v \<times> 'h"

abbreviation NL :: string where
  "NL \<equiv> [CHR 0x0A]"

abbreviation QUOTE :: string where
  "QUOTE \<equiv> [CHR 0x27]"

subsection \<open>generate\_text\_with\_seed\<close>

definition warning_line :: "char \<Rightarrow> string" where
  "warning_line c =
     ''Warning: Character '' @ QUOTE @ [c] @ QUOTE @ '' not found in vocabulary, skipping...'' @ NL"

definition error_line :: string where
  "error_line = ''Error: No valid characters in seed phrase!'' @ NL"

definition separator_line :: string where
  "separator_line = NL @ replicate 50 CHR ''='' @ NL"

text \<open>Lines 26-32: the loop over the seed phrase, with its warnings.\<close>

fun seed_indices :: "(char \<rightharpoonup> int) \<Rightarrow> string \<Rightarrow> ('h, 'v) event list \<times> int list" where
  "seed_indices character_to_num [] = ([], [])"
| "seed_indices character_to_num (c # cs) =
     (let (ev, ids) = seed_indices character_to_num cs
      in case character_to_num c of
           Some i \<Rightarrow> (ev, i # ids)
         | None \<Rightarrow> (Out (warning_line c) # ev, ids))"

text \<open>
  Lines 53-55: one call of the model per token, the hidden state carried on, the
  output overwritten. It is run on all seed indices but the last.
\<close>

fun warm_up :: "('h, 'v) rnn \<Rightarrow> int list \<Rightarrow> 'h option \<Rightarrow> ('h, 'v) event list \<times> 'h option" where
  "warm_up model [] hidden_state = ([], hidden_state)"
| "warm_up model (t # ts) hidden_state =
     (let (output, h) = model t hidden_state;
          (ev, h') = warm_up model ts (Some h)
      in (Step t hidden_state # ev, h'))"

text \<open>
  Lines 60-79: the loop \<open>for _ in range(length)\<close>, here over the number of
  iterations left. \<open>num_to_character[...]\<close> raises \<open>KeyError\<close> on an unknown id.
\<close>

fun decode :: "('h, 'v) rnn \<Rightarrow> ('v, 'g) torch \<Rightarrow> (int \<rightharpoonup> char) \<Rightarrow> real \<Rightarrow> nat \<Rightarrow>
    int \<Rightarrow> 'h option \<Rightarrow> string \<Rightarrow> 'g \<Rightarrow> ('h, 'v) event list \<times> (error + string) \<times> 'g" where
  "decode model T num_to_character temperature 0 current_input hidden_state generated_text g =
     ([], Inr generated_text, g)"
| "decode model T num_to_character temperature (Suc n) current_input hidden_state generated_text g =
     (let (output, h) = model current_input hidden_state;
          output' = div_scalar T output temperature;
          probs = softmax T output';
          (character_num, g') = sample T probs g
      in case num_to_character character_num of
           None \<Rightarrow> ([Step current_input hidden_state, Draw probs], Inl KeyError, g')
         | Some char \<Rightarrow>
             (let (ev, r, g2) = decode model T num_to_character temperature n character_num
                                   (Some h) (generated_text @ [char]) g'
              in (Step current_input hidden_state # Draw probs # Out [char] # ev, r, g2)))"

definition generate_text_with_seed :: "('h, 'v) rnn \<Rightarrow> ('v, 'g) torch \<Rightarrow> (char \<rightharpoonup> int) \<Rightarrow>
    (int \<rightharpoonup> char) \<Rightarrow> string \<Rightarrow> int \<Rightarrow> real \<Rightarrow> 'g \<Rightarrow>
    ('h, 'v) event list \<times> (error + string) \<times> 'g" where
  "generate_text_with_seed model T character_to_num num_to_character seed_phrase len temperature g =
     (let (warnings, ids) = seed_indices character_to_num seed_phrase
      in if ids = [] then (warnings @ [Out error_line], Inr [], g)
         else
           (let header = [Out (''Seed: '' @ QUOTE @ seed_phrase @ QUOTE @ NL),
                          Out (''Generated text:'' @ NL),
                          Out seed_phrase];
                (ev1, hidden_state) = warm_up model (butlast ids) None;
                (ev2, r, g') = decode model T num_to_character temperature (nat len)
                                 (last ids) hidden_state seed_phrase g
            in case r of
                 Inl e \<Rightarrow> (warnings @ header @ ev1 @ ev2, Inl e, g')
               | Inr generated_text \<Rightarrow>
                   (warnings @ header @ ev1 @ ev2 @ [Out separator_line], Inr generated_text, g')))"

subsection \<open>Built-in string operations\<close>

text \<open>
  \<open>str.strip()\<close> removes the white space at both ends: the characters for which
  \<open>str.isspace\<close> holds, here those below 256. \<open>str.lower()\<close> maps the upper-case
  letters below 256 to lower case. \<open>str.count(sub)\<close> counts the occurrences of
  \<open>sub\<close> that do not overlap, from the left; for the empty \<open>sub\<close> it is the length
  plus one. \<open>str(n)\<close> is the decimal numeral of a natural number.
\<close>

definition py_isspace :: "char \<Rightarrow> bool" where
  "py_isspace c = (let n = of_char c :: nat
     in (9 \<le> n \<and> n \<le> 13) \<or> (28 \<le> n \<and> n \<le> 32) \<or> n = 133 \<or> n = 160)"

definition strip :: "string \<Rightarrow> string" where
  "strip s = rev (dropWhile py_isspace (rev (dropWhile py_isspace s)))"

definition lower_char :: "char \<Rightarrow> char" where
  "lower_char c = (let n = of_char c :: nat
     in if (65 \<le> n \<and> n \<le> 90) \<or> (192 \<le> n \<and> n \<le> 222 \<and> n \<noteq> 215)
        then char_of (n + 32) else c)"

definition lower :: "string \<Rightarrow> string" where
  "lower s = map lower_char s"




text \<open>
  \<open>int(s)\<close> on a string: white space at both ends is dropped, then an optional sign,
  then decimal digits, where single underscores may stand between digits. Anything
  else raises \<open>ValueError\<close>, here \<open>None\<close>. Digits outside ASCII and the
  interpreter's limit on the number of digits are left out.
\<close>

definition is_digit :: "char \<Rightarrow> bool" where
  "is_digit c = (let n = of_char c :: nat in 48 \<le> n \<and> n \<le> 57)"

fun digits_value :: "nat \<Rightarrow> string \<Rightarrow> nat option" where
  "digits_value acc [] = Some acc"
| "digits_value acc (c # cs) =
     (if is_digit c then digits_value (10 * acc + (of_char c - 48)) cs
      else if c = CHR ''_'' then
        (case cs of
           [] \<Rightarrow> None
         | d # ds \<Rightarrow> if is_digit d then digits_value acc cs else None)
      else None)"

definition unsigned_value :: "string \<Rightarrow> nat option" where
  "unsigned_value s =
     (case s of
        [] \<Rightarrow> None
      | c # cs \<Rightarrow> if is_digit c then digits_value 0 s else None)"

definition py_int :: "string \<Rightarrow> int option" where
  "py_int s =
     (case strip s of
        [] \<Rightarrow> None
      | c # cs \<Rightarrow>
          if c = CHR ''-'' then map_option (\<lambda>n. - int n) (unsigned_value cs)
          else if c = CHR ''+'' then map_option int (unsigned_value cs)
          else map_option int (unsigned_value (c # cs)))"

subsection \<open>test\_sherlock\_phrases\<close>

definition classic_phrases :: "string list" where
  "classic_phrases =
     [''My dear fellow'', ''Elementary, my dear Watson'', ''The game is afoot'',
      ''I have observed'', ''It is quite simple'', ''The case presents'', ''Holmes said'',
      ''Watson, I have'', ''The evidence suggests'', ''I deduce that'']"

text \<open>
  Lines 135-137: \<open>for phrase in ...: generate_text_with_seed(..., phrase, length, temperature)\<close>.
  The returned text is dropped; an exception ends the loop.
\<close>

fun for_phrases :: "('h, 'v) rnn \<Rightarrow> ('v, 'g) torch \<Rightarrow> (char \<rightharpoonup> int) \<Rightarrow> (int \<rightharpoonup> char) \<Rightarrow>
    int \<Rightarrow> real \<Rightarrow> string list \<Rightarrow> 'g \<Rightarrow> ('h, 'v) event list \<times> (error + unit) \<times> 'g" where
  "for_phrases model T character_to_num num_to_character len temperature [] g = ([], Inr (), g)"
| "for_phrases model T character_to_num num_to_character len temperature (phrase # phrases) g =
     (let (ev, r, g') = generate_text_with_seed model T character_to_num num_to_character
                          phrase len temperature g
      in case r of
           Inl e \<Rightarrow> (ev, Inl e, g')
         | Inr text \<Rightarrow>
             (let (ev', r', g2) = for_phrases model T character_to_num num_to_character
                                     len temperature phrases g'
              in (ev @ ev', r', g2)))"

definition test_sherlock_phrases :: "('h, 'v) rnn \<Rightarrow> ('v, 'g) torch \<Rightarrow> (char \<rightharpoonup> int) \<Rightarrow>
    (int \<rightharpoonup> char) \<Rightarrow> 'g \<Rightarrow> ('h, 'v) event list \<times> (error + unit) \<times> 'g" where
  "test_sherlock_phrases model T character_to_num num_to_character g =
     (let (ev, r, g') = for_phrases model T character_to_num num_to_character 120 (8 / 10)
                          classic_phrases g
      in (Out (NL @ ''Testing Classic Sherlock Holmes Phrases:'' @ NL)
          # Out (replicate 60 CHR ''='' @ NL) # ev, r, g'))"

subsection \<open>interactive\_generation\<close>

text \<open>
  \<open>input(prompt)\<close> writes the prompt and returns the next line of standard input,
  here the head of a list of lines; at the end of the input it raises \<open>EOFError\<close>.
  \<open>float(s)\<close> is a parameter \<open>py_float\<close>, \<open>None\<close> where it raises \<open>ValueError\<close>.
  \<open>x or d\<close> on strings is \<open>d\<close> when \<open>x\<close> is empty.
\<close>

definition or_default :: "string \<Rightarrow> string \<Rightarrow> string" where
  "or_default x d = (if x = [] then d else x)"

datatype control = Continue | Break

text \<open>Lines 156-159: the handler of \<open>ValueError\<close>; the loop goes on after it.\<close>

definition use_defaults :: "('h, 'v) rnn \<Rightarrow> ('v, 'g) torch \<Rightarrow> (char \<rightharpoonup> int) \<Rightarrow> (int \<rightharpoonup> char) \<Rightarrow>
    string \<Rightarrow> ('h, 'v) event list \<Rightarrow> string list \<Rightarrow> 'g \<Rightarrow>
    ('h, 'v) event list \<times> (error + control) \<times> string list \<times> 'g" where
  "use_defaults model T character_to_num num_to_character seed printed rest g =
     (let (ev, r, g') = generate_text_with_seed model T character_to_num num_to_character
                          seed 150 (8 / 10) g;
          evs = printed @ Out (''Invalid input. Using defaults.'' @ NL) # ev
      in case r of
           Inl e \<Rightarrow> (evs, Inl e, rest, g')
         | Inr text \<Rightarrow> (evs, Inr Continue, rest, g'))"

text \<open>Lines 146-159: one pass through the body of \<open>while True\<close>.\<close>

definition session_step :: "('h, 'v) rnn \<Rightarrow> ('v, 'g) torch \<Rightarrow> (string \<Rightarrow> real option) \<Rightarrow>
    (char \<rightharpoonup> int) \<Rightarrow> (int \<rightharpoonup> char) \<Rightarrow> string list \<Rightarrow> 'g \<Rightarrow>
    ('h, 'v) event list \<times> (error + control) \<times> string list \<times> 'g" where
  "session_step model T py_float character_to_num num_to_character inputs g =
     (let p1 = Out (NL @ ''Enter seed phrase: '');
          p2 = Out ''Enter length (default 150): '';
          p3 = Out ''Enter temperature (default 0.8): ''
      in case inputs of
           [] \<Rightarrow> ([p1], Inl EOFError, [], g)
         | line # rest \<Rightarrow>
             (let seed = strip line
              in if lower seed = ''quit'' then ([p1], Inr Break, rest, g)
                 else if seed = [] then ([p1], Inr Continue, rest, g)
                 else
                   (case rest of
                      [] \<Rightarrow> ([p1, p2], Inl EOFError, [], g)
                    | l # rest1 \<Rightarrow>
                        (case py_int (or_default l ''150'') of
                           None \<Rightarrow> use_defaults model T character_to_num num_to_character
                                     seed [p1, p2] rest1 g
                         | Some len \<Rightarrow>
                             (case rest1 of
                                [] \<Rightarrow> ([p1, p2, p3], Inl EOFError, [], g)
                              | t # rest2 \<Rightarrow>
                                  (case py_float (or_default t ''0.8'') of
                                     None \<Rightarrow> use_defaults model T character_to_num num_to_character
                                               seed [p1, p2, p3] rest2 g
                                   | Some temp \<Rightarrow>
                                       (let (ev, r, g') = generate_text_with_seed model T
                                              character_to_num num_to_character seed len temp g
                                        in case r of
                                             Inl ValueError \<Rightarrow>
                                               use_defaults model T character_to_num num_to_character
                                                 seed ([p1, p2, p3] @ ev) rest2 g'
                                           | Inl e \<Rightarrow> ([p1, p2, p3] @ ev, Inl e, rest2, g')
                                           | Inr text \<Rightarrow> ([p1, p2, p3] @ ev, Inr Continue, rest2, g'))))))))"

function interactive_loop :: "('h, 'v) rnn \<Rightarrow> ('v, 'g) torch \<Rightarrow> (string \<Rightarrow> real option) \<Rightarrow>
    (char \<rightharpoonup> int) \<Rightarrow> (int \<rightharpoonup> char) \<Rightarrow> string list \<Rightarrow> 'g \<Rightarrow>
    ('h, 'v) event list \<times> (error + unit) \<times> string list \<times> 'g" where
  "interactive_loop model T py_float character_to_num num_to_character inputs g =
     (case session_step model T py_float character_to_num num_to_character inputs g of
        (ev, Inl e, rest, g') \<Rightarrow> (ev, Inl e, rest, g')
      | (ev, Inr Break, rest, g') \<Rightarrow> (ev, Inr (), rest, g')
      | (ev, Inr Continue, rest, g') \<Rightarrow>
          (let (ev', r, rest1, g2) =
                 interactive_loop model T py_float character_to_num num_to_character rest g'
           in (ev @ ev', r, rest1, g2)))"
  by pat_completeness auto
termination
  by (relation "measure (\<lambda>(model, T, py_float, c2n, n2c, inputs, g). length inputs)")
     (auto simp: session_step_def use_defaults_def Let_def
           split: list.splits if_splits option.splits prod.splits sum.splits error.splits)

declare interactive_loop.simps [simp del]

definition interactive_generation :: "('h, 'v) rnn \<Rightarrow> ('v, 'g) torch \<Rightarrow> (string \<Rightarrow> real option) \<Rightarrow>
    (char \<rightharpoonup> int) \<Rightarrow> (int \<rightharpoonup> char) \<Rightarrow> string list \<Rightarrow> 'g \<Rightarrow>
    ('h, 'v) event list \<times> (error + unit) \<times> string list \<times> 'g" where
  "interactive_generation model T py_float character_to_num num_to_character inputs g =
     (let (ev, r, rest, g') =
            interactive_loop model T py_float character_to_num num_to_character inputs g
      in (Out (NL @ ''Interactive Text Generation:'' @ NL)
          # Out (replicate 60 CHR ''='' @ NL)
          # Out (''Enter your own seed phrases (type '' @ QUOTE @ ''quit'' @ QUOTE @ '' to exit):'' @ NL)
          # ev, r, rest, g'))"

subsection \<open>analyze\_generation\_quality\<close>










subsection \<open>A small instance\<close>

text \<open>
  An instance on which the definitions can be run. Tensors are symbolic: the scores
  the model returns for a token, a tensor divided by a scalar, the softmax of a
  tensor. The generator state is a counter and the draws alternate between the ids
  \<open>0\<close> and \<open>1\<close>; the hidden state of the model is the number of tokens it has read.
\<close>

datatype tensor = Scores int | Divided tensor real | Softmax tensor

definition example_model :: "(nat, tensor) rnn" where
  "example_model t h = (Scores t, (case h of None \<Rightarrow> 1 | Some n \<Rightarrow> Suc n))"

definition example_torch :: "(tensor, nat) torch" where
  "example_torch =
     \<lparr>div_scalar = Divided, softmax = Softmax, sample = (\<lambda>v g. (int (g mod 2), Suc g))\<rparr>"

definition example_c2n :: "char \<rightharpoonup> int" where
  "example_c2n = [CHR ''a'' \<mapsto> 0, CHR ''b'' \<mapsto> 1]"

definition example_n2c :: "int \<rightharpoonup> char" where
  "example_n2c = [0 \<mapsto> CHR ''a'', 1 \<mapsto> CHR ''b'']"

text \<open>A stand-in for \<open>float(s)\<close>: it knows \<open>0.8\<close> and the integers.\<close>

definition example_float :: "string \<Rightarrow> real option" where
  "example_float s = (if s = ''0.8'' then Some (8 / 10) else map_option of_int (py_int s))"

subsection \<open>The steps of the specification\<close>

text \<open>
  The next three definitions do not come from the code. They say in the words of the
  specification what the two loops are to do, and the code is compared with them.
  Warm-up: the recurrent state is null at first, and every seed token but the last
  steps the model once; \<open>hidden_chain\<close> lists the state each of these steps starts
  from, \<open>state_after\<close> is the state after the last of them. Decoding: step the model
  on the current token, divide the scores by the temperature, take the softmax, draw
  one id from the distribution, decode it to a character, append the character and
  make the id the current token.
\<close>

fun hidden_chain :: "('h, 'v) rnn \<Rightarrow> int list \<Rightarrow> 'h option \<Rightarrow> 'h option list" where
  "hidden_chain model [] h = []"
| "hidden_chain model (t # ts) h = h # hidden_chain model ts (Some (snd (model t h)))"

definition state_after :: "('h, 'v) rnn \<Rightarrow> int list \<Rightarrow> 'h option \<Rightarrow> 'h option" where
  "state_after model ts h = fold (\<lambda>t s. Some (snd (model t s))) ts h"

inductive decoding_steps :: "('h, 'v) rnn \<Rightarrow> ('v, 'g) torch \<Rightarrow> (int \<rightharpoonup> char) \<Rightarrow> real \<Rightarrow>
    int \<Rightarrow> 'h option \<Rightarrow> 'g \<Rightarrow> ('h, 'v) event list \<Rightarrow> string \<Rightarrow> 'g \<Rightarrow> bool"
  for model T num_to_character temperature where
    finished: "decoding_steps model T num_to_character temperature token state g [] [] g"
  | iteration:
      "model token state = (scores, state') \<Longrightarrow>
       adjusted = div_scalar T scores temperature \<Longrightarrow>
       probs = softmax T adjusted \<Longrightarrow>
       sample T probs g = (sampled, g') \<Longrightarrow>
       num_to_character sampled = Some c \<Longrightarrow>
       decoding_steps model T num_to_character temperature sampled (Some state') g' evs cs g2 \<Longrightarrow>
       decoding_steps model T num_to_character temperature token state g
         (Step token state # Draw probs # Out [c] # evs) (c # cs) g2"

code_pred (modes: i \<Rightarrow> i \<Rightarrow> i \<Rightarrow> i \<Rightarrow> i \<Rightarrow> i \<Rightarrow> i \<Rightarrow> o \<Rightarrow> o \<Rightarrow> o \<Rightarrow> bool) decoding_steps .

section \<open>Properties\<close>

subsection \<open>Tokenisation and the two loops\<close>

lemma seed_indices_ids:
  "snd (seed_indices c2n s :: ('h, 'v) event list \<times> int list) = map (\<lambda>c. the (c2n c)) (filter (\<lambda>c. c2n c \<noteq> None) s)"
  by (induction s) (auto split: prod.splits option.splits)

lemma seed_indices_warnings:
  "fst (seed_indices c2n s :: ('h, 'v) event list \<times> int list) = map (\<lambda>c. Out (warning_line c)) (filter (\<lambda>c. c2n c = None) s)"
  by (induction s) (auto split: prod.splits option.splits)

lemma seed_indices_eq:
  "(seed_indices c2n s :: ('h, 'v) event list \<times> int list) =
     (map (\<lambda>c. Out (warning_line c)) (filter (\<lambda>c. c2n c = None) s),
      map (\<lambda>c. the (c2n c)) (filter (\<lambda>c. c2n c \<noteq> None) s))"
  by (simp add: prod_eq_iff seed_indices_ids seed_indices_warnings)

lemma decode_result:
  "decode model T n2c temp n cur h acc g = (ev, Inr res, g') \<Longrightarrow>
     length res = length acc + n \<and> prefix acc res"
proof (induction n arbitrary: cur h acc g ev)
  case 0 then show ?case by simp
next
  case (Suc n)
  obtain out h' where m: "model cur h = (out, h')" by (cases "model cur h")
  obtain k g1 where s: "sample T (softmax T (div_scalar T out temp)) g = (k, g1)"
    by (cases "sample T (softmax T (div_scalar T out temp)) g")
  from Suc.prems m s obtain ch where c: "n2c k = Some ch"
    by (cases "n2c k") (auto simp: Let_def)
  obtain ev1 r1 g2 where d: "decode model T n2c temp n k (Some h') (acc @ [ch]) g1 = (ev1, r1, g2)"
    by (cases "decode model T n2c temp n k (Some h') (acc @ [ch]) g1")
  from Suc.prems m s c d have "r1 = Inr res" "g2 = g'" by (auto simp: Let_def)
  with d Suc.IH have "length res = length (acc @ [ch]) + n \<and> prefix (acc @ [ch]) res" by blast
  then show ?case by (auto dest: append_prefixD)
qed

lemma decode_returns:
  assumes known: "\<forall>v g. fst (sample T v g) \<in> dom n2c"
  shows "\<exists>ev res g'. decode model T n2c temp n cur h acc g = (ev, Inr res, g')"
proof (induction n arbitrary: cur h acc g)
  case 0 then show ?case by simp
next
  case (Suc n)
  obtain out h' where m: "model cur h = (out, h')" by (cases "model cur h")
  obtain k g1 where s: "sample T (softmax T (div_scalar T out temp)) g = (k, g1)"
    by (cases "sample T (softmax T (div_scalar T out temp)) g")
  from known s obtain ch where c: "n2c k = Some ch"
    by (metis domD fst_conv)
  from Suc [of k "Some h'" "acc @ [ch]" g1] obtain ev res g' where
    "decode model T n2c temp n k (Some h') (acc @ [ch]) g1 = (ev, Inr res, g')" by blast
  with m s c show ?case by (simp add: Let_def)
qed

lemma generate_empty:
  assumes "\<forall>c \<in> set seed. c2n c = None"
  shows "generate_text_with_seed model T c2n n2c seed len temp g =
           (map (\<lambda>c. Out (warning_line c)) seed @ [Out error_line], Inr [], g)"
proof -
  from assms have "filter (\<lambda>c. c2n c = None) seed = seed" "filter (\<lambda>c. c2n c \<noteq> None) seed = []"
    by (auto simp: filter_empty_conv)
  then show ?thesis
    by (simp add: generate_text_with_seed_def seed_indices_eq)
qed

lemma generate_known:
  assumes "\<exists>c \<in> set seed. c2n c \<noteq> None"
  shows "generate_text_with_seed model T c2n n2c seed len temp g = (ev, Inr res, g') \<Longrightarrow>
     length res = length seed + nat len \<and> prefix seed res"
proof -
  assume gen: "generate_text_with_seed model T c2n n2c seed len temp g = (ev, Inr res, g')"
  from assms have ne: "filter (\<lambda>c. c2n c \<noteq> None) seed \<noteq> []" by (auto simp: filter_empty_conv)
  with gen show ?thesis
    by (auto simp: generate_text_with_seed_def seed_indices_eq Let_def
        split: prod.splits sum.splits dest: decode_result)
qed

lemma generate_returns:
  fixes model :: "('h, 'v) rnn"
  assumes known: "\<forall>v g. fst (sample T v g) \<in> dom n2c"
  shows "\<exists>ev res g'. generate_text_with_seed model T c2n n2c seed len temp g = (ev, Inr res, g')"
proof -
  obtain w ids where si: "(seed_indices c2n seed :: ('h, 'v) event list \<times> int list) = (w, ids)"
    by (cases "seed_indices c2n seed :: ('h, 'v) event list \<times> int list")
  obtain ev1 hs where wu: "warm_up model (butlast ids) None = (ev1, hs)"
    by (cases "warm_up model (butlast ids) None")
  from decode_returns [OF known] obtain ev2 res g' where
    "decode model T n2c temp (nat len) (last ids) hs seed g = (ev2, Inr res, g')" by blast
  with si wu show ?thesis
    by (cases "ids = []") (auto simp: generate_text_with_seed_def Let_def)
qed

lemma length_hidden_chain: "length (hidden_chain model ts h) = length ts"
  by (induction ts arbitrary: h) auto

lemma warm_up_eq:
  "warm_up model ts h = (map2 Step ts (hidden_chain model ts h), state_after model ts h)"
  by (induction ts arbitrary: h) (auto simp: state_after_def split: prod.splits)

lemma decode_first_step:
  "0 < n \<Longrightarrow> \<exists>rest. fst (decode model T n2c temp n cur h acc g) = Step cur h # rest"
  by (cases n) (auto simp: Let_def split: prod.splits option.splits)

lemma decode_steps:
  "decode model T n2c temp n cur h acc g = (ev, Inr res, g') \<Longrightarrow>
     \<exists>cs. decoding_steps model T n2c temp cur h g ev cs g' \<and> res = acc @ cs \<and> length cs = n"
proof (induction n arbitrary: cur h acc g ev)
  case 0
  then show ?case by (auto intro: decoding_steps.finished)
next
  case (Suc n)
  obtain out h' where m: "model cur h = (out, h')" by (cases "model cur h")
  obtain k g1 where s: "sample T (softmax T (div_scalar T out temp)) g = (k, g1)"
    by (cases "sample T (softmax T (div_scalar T out temp)) g")
  from Suc.prems m s obtain ch where c: "n2c k = Some ch"
    by (cases "n2c k") (auto simp: Let_def)
  obtain ev1 r1 g2 where d: "decode model T n2c temp n k (Some h') (acc @ [ch]) g1 = (ev1, r1, g2)"
    by (cases "decode model T n2c temp n k (Some h') (acc @ [ch]) g1")
  from Suc.prems m s c d have e: "r1 = Inr res" "g2 = g'"
      "ev = Step cur h # Draw (softmax T (div_scalar T out temp)) # Out [ch] # ev1"
    by (auto simp: Let_def)
  from Suc.IH d e obtain cs where
    cs: "decoding_steps model T n2c temp k (Some h') g1 ev1 cs g'" "res = (acc @ [ch]) @ cs" "length cs = n"
    by blast
  from m s c cs(1) have "decoding_steps model T n2c temp cur h g
      (Step cur h # Draw (softmax T (div_scalar T out temp)) # Out [ch] # ev1) (ch # cs) g'"
    by (intro decoding_steps.iteration) auto
  with e cs show ?case by auto
qed

lemma example_sample_known: "\<forall>v g. fst (sample example_torch v g) \<in> dom example_n2c"
  by (auto simp: example_torch_def example_n2c_def)





lemma interactive_loop_continue:
  "session_step model T py_float c2n n2c inputs g = (ev, Inr Continue, rest, g') \<Longrightarrow>
   interactive_loop model T py_float c2n n2c inputs g =
     (let (ev', r, rest', g2) = interactive_loop model T py_float c2n n2c rest g'
      in (ev @ ev', r, rest', g2))"
  by (subst interactive_loop.simps) simp




lemma interactive_loop_quit:
  "interactive_loop model T py_float c2n n2c [''quit''] g =
     ([Out (NL @ ''Enter seed phrase: '')], Inr (), [], g)"
proof -
  have "strip ''quit'' = ''quit''" "lower ''quit'' = ''quit''" by code_simp+
  then have "session_step model T py_float c2n n2c [''quit''] g =
      ([Out (NL @ ''Enter seed phrase: '')], Inr Break, [], g)"
    by (simp add: session_step_def Let_def)
  then show ?thesis by (subst interactive_loop.simps) simp
qed




subsection \<open>The seed without a known character\<close>

text \<open>
  C1. When no character of the seed is in \<open>character_to_num\<close>, the call prints one
  warning per character of the seed and then the error line, returns the empty
  string, calls neither the model nor the sampler and leaves the random generator as
  it was. It returns and does not raise, so its callers go on: the loop over a
  list of phrases continues with the next phrase, and the pass of the interactive
  loop ends with the loop continuing.
\<close>

theorem empty_seed_error:
  fixes model :: "('h, 'v) rnn"
  assumes "\<forall>c \<in> set seed. character_to_num c = None"
  shows "generate_text_with_seed model T character_to_num num_to_character seed len temperature g =
           (map (\<lambda>c. Out (warning_line c)) seed @ [Out error_line], Inr [], g)
       \<and> for_phrases model T character_to_num num_to_character len temperature (seed # phrases) g =
           (let (ev, r, g') = for_phrases model T character_to_num num_to_character len temperature phrases g
            in (map (\<lambda>c. Out (warning_line c)) seed @ [Out error_line] @ ev, r, g'))
       \<and> (strip line = seed \<and> seed \<noteq> [] \<and> lower seed \<noteq> ''quit'' \<longrightarrow>
            (\<exists>ev rest1. session_step model T py_float character_to_num num_to_character
                           (line # l # t # rest) g = (ev, Inr Continue, rest1, g)
                        \<and> (rest1 = rest \<or> rest1 = t # rest)
                        \<and> Out error_line \<in> set ev))"
proof -
  have gen: "generate_text_with_seed model T character_to_num num_to_character seed n x g0 =
           (map (\<lambda>c. Out (warning_line c)) seed @ [Out error_line], Inr [], g0)" for n x g0
    using assms by (rule generate_empty)
  have a: "for_phrases model T character_to_num num_to_character len temperature (seed # phrases) g =
           (let (ev, r, g') = for_phrases model T character_to_num num_to_character len temperature phrases g
            in (map (\<lambda>c. Out (warning_line c)) seed @ [Out error_line] @ ev, r, g'))"
    by (simp add: gen split: prod.splits)
  have b: "\<exists>ev rest1. session_step model T py_float character_to_num num_to_character
                           (line # l # t # rest) g = (ev, Inr Continue, rest1, g)
                        \<and> (rest1 = rest \<or> rest1 = t # rest)
                        \<and> Out error_line \<in> set ev"
    if "strip line = seed" "seed \<noteq> []" "lower seed \<noteq> ''quit''"
    using that by (cases "py_int (or_default l ''150'')"; cases "py_float (or_default t ''0.8'')") (simp_all add: session_step_def use_defaults_def gen Let_def)
  from gen a b show ?thesis by blast
qed

theorem empty_seed_error_witness:
  "example_c2n CHR ''x'' = None \<and> example_c2n CHR ''y'' = None
   \<and> generate_text_with_seed example_model example_torch example_c2n example_n2c ''xy'' 5 1 (0::nat) =
       ([Out (warning_line CHR ''x''), Out (warning_line CHR ''y''), Out error_line], Inr [], 0)
   \<and> strip '' xy '' = ''xy'' \<and> lower ''xy'' \<noteq> ''quit''
   \<and> (\<exists>ev rest1. session_step example_model example_torch example_float example_c2n example_n2c
                    ['' xy '', ''abc'', ''1''] 0 = (ev, Inr Continue, rest1, 0)
                 \<and> Out error_line \<in> set ev)"
proof -
  have h: "\<forall>c \<in> set ''xy''. example_c2n c = None"
    by (simp add: example_c2n_def)
  have s: "strip '' xy '' = ''xy''" "lower ''xy'' \<noteq> ''quit''"
    by code_simp+
  have e: "map (\<lambda>c. Out (warning_line c)) ''xy'' @ [Out error_line] =
      ([Out (warning_line CHR ''x''), Out (warning_line CHR ''y''), Out error_line] :: (nat, tensor) event list)"
    by simp
  from empty_seed_error [OF h, where model = example_model and T = example_torch
      and num_to_character = example_n2c and len = 5 and temperature = 1 and g = 0
      and line = "'' xy ''" and py_float = example_float and l = "''abc''" and t = "''1''"
      and rest = "[]", unfolded e] s
  have "generate_text_with_seed example_model example_torch example_c2n example_n2c ''xy'' 5 1 (0::nat) =
       ([Out (warning_line CHR ''x''), Out (warning_line CHR ''y''), Out error_line], Inr [], 0)
     \<and> (\<exists>ev rest1. session_step example_model example_torch example_float example_c2n example_n2c
                    ['' xy '', ''abc'', ''1''] 0 = (ev, Inr Continue, rest1, 0)
                 \<and> Out error_line \<in> set ev)"
    by blast
  with h s show ?thesis by simp
qed

subsection \<open>The seed is the beginning of the result\<close>

text \<open>
  C2. When at least one character of the seed is known, every text the call returns
  begins with the seed as it was given, unknown characters included; and the call
  does return a text when the sampler only draws ids that \<open>num_to_character\<close> knows.
\<close>

theorem result_starts_with_seed:
  fixes model :: "('h, 'v) rnn"
  assumes "\<exists>c \<in> set seed. character_to_num c \<noteq> None"
  shows "(\<forall>ev res g'. generate_text_with_seed model T character_to_num num_to_character
                         seed len temperature g = (ev, Inr res, g')
                       \<longrightarrow> take (length seed) res = seed)
       \<and> ((\<forall>v g. fst (sample T v g) \<in> dom num_to_character) \<longrightarrow>
            (\<exists>ev res g'. generate_text_with_seed model T character_to_num num_to_character
                            seed len temperature g = (ev, Inr res, g')
                          \<and> take (length seed) res = seed))"
proof -
  have a: "take (length seed) res = seed"
    if "generate_text_with_seed model T character_to_num num_to_character
          seed len temperature g = (ev, Inr res, g')" for ev res g'
    using generate_known [OF assms that] by (auto simp: prefix_def)
  have b: "\<exists>ev res g'. generate_text_with_seed model T character_to_num num_to_character
                            seed len temperature g = (ev, Inr res, g')"
    if "\<forall>v g. fst (sample T v g) \<in> dom num_to_character"
    using that by (rule generate_returns)
  from a b show ?thesis by blast
qed

theorem result_starts_with_seed_witness:
  "example_c2n CHR ''a'' \<noteq> None \<and> example_c2n CHR ''x'' = None
   \<and> (\<exists>ev res g'. generate_text_with_seed example_model example_torch example_c2n example_n2c
                     ''axb'' 3 1 (0::nat) = (ev, Inr res, g')
                   \<and> take (length ''axb'') res = ''axb'')"
proof -
  have k: "\<exists>c \<in> set ''axb''. example_c2n c \<noteq> None"
    by (simp add: example_c2n_def)
  from result_starts_with_seed [OF k, where model = example_model and T = example_torch
      and num_to_character = example_n2c and len = 3 and temperature = 1 and g = 0]
    example_sample_known
  have "\<exists>ev res g'. generate_text_with_seed example_model example_torch example_c2n example_n2c
                     ''axb'' 3 1 (0::nat) = (ev, Inr res, g')
                   \<and> take (length ''axb'') res = ''axb''"
    by blast
  then show ?thesis by (simp add: example_c2n_def)
qed

subsection \<open>The number of characters generated\<close>

text \<open>
  C3. When at least one character of the seed is known and \<open>length\<close> is not negative,
  every text the call returns is longer than the seed by exactly \<open>length\<close> characters,
  whatever the temperature, and with \<open>length\<close> zero it is the seed; the call does
  return a text when the sampler only draws ids that \<open>num_to_character\<close> knows.
\<close>

theorem generated_length:
  fixes model :: "('h, 'v) rnn"
  assumes "\<exists>c \<in> set seed. character_to_num c \<noteq> None" and "0 \<le> len"
  shows "(\<forall>ev res g'. generate_text_with_seed model T character_to_num num_to_character
                         seed len temperature g = (ev, Inr res, g')
                       \<longrightarrow> int (length res) - int (length seed) = len \<and> (len = 0 \<longrightarrow> res = seed))
       \<and> ((\<forall>v g. fst (sample T v g) \<in> dom num_to_character) \<longrightarrow>
            (\<exists>ev res g'. generate_text_with_seed model T character_to_num num_to_character
                            seed len temperature g = (ev, Inr res, g')
                          \<and> int (length res) - int (length seed) = len
                          \<and> (len = 0 \<longrightarrow> res = seed)))"
proof -
  have a: "int (length res) - int (length seed) = len \<and> (len = 0 \<longrightarrow> res = seed)"
    if "generate_text_with_seed model T character_to_num num_to_character
          seed len temperature g = (ev, Inr res, g')" for ev res g'
    using generate_known [OF assms(1) that] assms(2) by (auto simp: prefix_def)
  have b: "\<exists>ev res g'. generate_text_with_seed model T character_to_num num_to_character
                            seed len temperature g = (ev, Inr res, g')"
    if "\<forall>v g. fst (sample T v g) \<in> dom num_to_character"
    using that by (rule generate_returns)
  from a b show ?thesis by blast
qed

theorem generated_length_witness:
  "example_c2n CHR ''a'' \<noteq> None \<and> (0::int) \<le> 3
   \<and> (\<exists>ev res g'. generate_text_with_seed example_model example_torch example_c2n example_n2c
                     ''axb'' 3 1 (0::nat) = (ev, Inr res, g')
                   \<and> int (length res) - int (length ''axb'') = 3)
   \<and> (\<exists>ev g'. generate_text_with_seed example_model example_torch example_c2n example_n2c
                     ''axb'' 0 1 (0::nat) = (ev, Inr ''axb'', g'))"
proof -
  have k: "\<exists>c \<in> set ''axb''. example_c2n c \<noteq> None"
    by (simp add: example_c2n_def)
  have l: "(0::int) \<le> 3" and z: "(0::int) \<le> 0" by simp_all
  from generated_length [OF k l, where model = example_model and T = example_torch
      and num_to_character = example_n2c and temperature = 1 and g = 0]
    example_sample_known
  have a: "\<exists>ev res g'. generate_text_with_seed example_model example_torch example_c2n example_n2c
                     ''axb'' 3 1 (0::nat) = (ev, Inr res, g')
                   \<and> int (length res) - int (length ''axb'') = 3"
    by blast
  from generated_length [OF k z, where model = example_model and T = example_torch
      and num_to_character = example_n2c and temperature = 1 and g = 0]
    example_sample_known
  have b: "\<exists>ev g'. generate_text_with_seed example_model example_torch example_c2n example_n2c
                     ''axb'' 0 1 (0::nat) = (ev, Inr ''axb'', g')"
    by blast
  from a b show ?thesis by (simp add: example_c2n_def)
qed

subsection \<open>Warm-up\<close>

text \<open>
  C4. When the seed gives the token ids \<open>ids\<close>, not empty, the events of the call
  are the warnings, the three header lines, then one model step for each id but the
  last, in order, the first from the null state and each next one from the state the
  step before returned, with no draw in between; there are \<open>length ids - 1\<close> of
  them. What follows begins, when \<open>length\<close> is positive, with the model step on the
  last id from the state the warm-up ended in, and is the separator line alone
  otherwise.
\<close>

theorem warm_up_steps:
  fixes model :: "('h, 'v) rnn" and w :: "('h, 'v) event list"
  assumes "seed_indices character_to_num seed = (w, ids)" and "ids \<noteq> []"
  shows "\<exists>ev2 r g'.
           generate_text_with_seed model T character_to_num num_to_character seed len temperature g =
             (w @ [Out (''Seed: '' @ QUOTE @ seed @ QUOTE @ NL), Out (''Generated text:'' @ NL), Out seed]
                @ map2 Step (butlast ids) (hidden_chain model (butlast ids) None) @ ev2, r, g')
         \<and> length (hidden_chain model (butlast ids) None) = length ids - 1
         \<and> (1 < length ids \<longrightarrow> hd (hidden_chain model (butlast ids) None) = None)
         \<and> (0 < len \<longrightarrow> (\<exists>rest. ev2 = Step (last ids) (state_after model (butlast ids) None) # rest))
         \<and> (len \<le> 0 \<longrightarrow> ev2 = [Out separator_line])"
proof -
  obtain ev2 r g' where d: "decode model T num_to_character temperature (nat len) (last ids)
      (state_after model (butlast ids) None) seed g = (ev2, r, g')"
    by (cases "decode model T num_to_character temperature (nat len) (last ids)
      (state_after model (butlast ids) None) seed g")
  let ?ev2 = "case r of Inl e \<Rightarrow> ev2 | Inr x \<Rightarrow> ev2 @ [Out separator_line]"
  have g: "generate_text_with_seed model T character_to_num num_to_character seed len temperature g =
             (w @ [Out (''Seed: '' @ QUOTE @ seed @ QUOTE @ NL), Out (''Generated text:'' @ NL), Out seed]
                @ map2 Step (butlast ids) (hidden_chain model (butlast ids) None) @ ?ev2, r, g')"
    using assms d by (simp add: generate_text_with_seed_def warm_up_eq split: sum.splits)
  have l: "length (hidden_chain model (butlast ids) None) = length ids - 1"
    by (simp add: length_hidden_chain)
  have n: "hd (hidden_chain model (butlast ids) None) = None" if "1 < length ids"
  proof -
    from that obtain a b rest where "ids = a # b # rest"
      by (cases ids; cases "tl ids") auto
    then show ?thesis by simp
  qed
  have s: "\<exists>rest. ?ev2 = Step (last ids) (state_after model (butlast ids) None) # rest" if "0 < len"
  proof -
    from that have "0 < nat len" by simp
    from decode_first_step [OF this, of model T num_to_character temperature "last ids"
        "state_after model (butlast ids) None" seed g] d
    show ?thesis by (auto split: sum.splits)
  qed
  have z: "?ev2 = [Out separator_line]" if "len \<le> 0"
    using that d by auto
  from g l n s z show ?thesis by blast
qed

theorem warm_up_steps_witness:
  "seed_indices example_c2n ''abxa'' = ([Out (warning_line CHR ''x'') :: (nat, tensor) event], [0, 1, 0])
   \<and> (\<exists>ev2 r g'.
         generate_text_with_seed example_model example_torch example_c2n example_n2c ''abxa'' 2 1 (0::nat) =
           ([Out (warning_line CHR ''x''),
             Out (''Seed: '' @ QUOTE @ ''abxa'' @ QUOTE @ NL), Out (''Generated text:'' @ NL), Out ''abxa'',
             Step 0 None, Step 1 (Some 1)] @ ev2, r, g')
       \<and> (\<exists>rest. ev2 = Step 0 (Some 2) # rest))"
proof -
  have s: "seed_indices example_c2n ''abxa'' =
      ([Out (warning_line CHR ''x'') :: (nat, tensor) event], [0, 1, 0])"
    by (simp add: example_c2n_def)
  have n: "[0, 1, 0 :: int] \<noteq> []" by simp
  have c: "map2 Step (butlast [0, 1, 0]) (hidden_chain example_model (butlast [0, 1, 0]) None) =
      ([Step 0 None, Step 1 (Some 1)] :: (nat, tensor) event list)"
    "state_after example_model (butlast [0, 1, 0]) None = Some 2"
    by (simp_all add: example_model_def state_after_def)
  from warm_up_steps [OF s n, where model = example_model and T = example_torch
      and num_to_character = example_n2c
      and len = 2 and temperature = 1 and g = 0, unfolded c]
  have "\<exists>ev2 r g'.
         generate_text_with_seed example_model example_torch example_c2n example_n2c ''abxa'' 2 1 (0::nat) =
           ([Out (warning_line CHR ''x'')] @
             [Out (''Seed: '' @ QUOTE @ ''abxa'' @ QUOTE @ NL), Out (''Generated text:'' @ NL), Out ''abxa''] @
             [Step 0 None, Step 1 (Some 1)] @ ev2, r, g')
       \<and> (\<exists>rest. ev2 = Step 0 (Some 2) # rest)"
    by auto
  with s show ?thesis by simp
qed

subsection \<open>One pass of the decoding loop\<close>

text \<open>
  C5. Whenever the decoding loop of \<open>n\<close> passes returns, its events and the characters
  it appended are those of \<open>n\<close> decoding steps of the specification: in each pass the
  model is stepped on the current token, the scores are divided by the temperature,
  the softmax of the quotient is what the sampler draws from, the id drawn is decoded
  by \<open>num_to_character\<close>, the character is printed and appended, and the id is the
  token of the next pass. The loop returns when the sampler only draws known ids.
  The draw is the sampler's, a parameter here: nothing in the loop takes a maximum.
\<close>

theorem decoding_iteration:
  fixes model :: "('h, 'v) rnn"
  shows "(\<forall>ev res g'. decode model T num_to_character temperature n current_input hidden_state
                         generated_text g = (ev, Inr res, g') \<longrightarrow>
            (\<exists>cs. decoding_steps model T num_to_character temperature current_input hidden_state g ev cs g'
                  \<and> res = generated_text @ cs \<and> length cs = n))
       \<and> ((\<forall>v g. fst (sample T v g) \<in> dom num_to_character) \<longrightarrow>
            (\<exists>ev res g' cs. decode model T num_to_character temperature n current_input hidden_state
                               generated_text g = (ev, Inr res, g')
                  \<and> decoding_steps model T num_to_character temperature current_input hidden_state g ev cs g'
                  \<and> res = generated_text @ cs \<and> length cs = n))"
proof -
  have a: "\<exists>cs. decoding_steps model T num_to_character temperature current_input hidden_state g ev cs g'
                  \<and> res = generated_text @ cs \<and> length cs = n"
    if "decode model T num_to_character temperature n current_input hidden_state
          generated_text g = (ev, Inr res, g')" for ev res g'
    using that by (rule decode_steps)
  have b: "\<exists>ev res g'. decode model T num_to_character temperature n current_input hidden_state
                               generated_text g = (ev, Inr res, g')"
    if "\<forall>v g. fst (sample T v g) \<in> dom num_to_character"
    using that by (rule decode_returns)
  from a b show ?thesis by metis
qed

theorem decoding_iteration_witness:
  "\<exists>ev res g' cs. decode example_model example_torch example_n2c (1 / 2) 2 0 None ''a'' (0::nat)
                     = (ev, Inr res, g')
     \<and> decoding_steps example_model example_torch example_n2c (1 / 2) 0 None 0 ev cs g'
     \<and> res = ''a'' @ cs \<and> length cs = 2"
  using decoding_iteration [where model = example_model and T = example_torch
      and num_to_character = example_n2c and temperature = "1 / 2" and n = 2
      and current_input = 0 and hidden_state = None and generated_text = "''a''" and g = 0]
    example_sample_known
  by blast

subsection \<open>The temperature is not checked\<close>



subsection \<open>Determinism for a fixed random source\<close>



subsection \<open>Malformed length or temperature\<close>



subsection \<open>The empty seed in the interactive loop\<close>

text \<open>
  C10. A line that is empty once its white space is stripped ends the pass of the
  interactive loop after the seed prompt: nothing more is printed or read, the model
  and the sampler are not called, the random generator is unchanged, and the loop
  goes on with the next line. The calls of the engine all stand behind the test that
  the seed is not empty.
\<close>

theorem empty_seed_skipped:
  fixes model :: "('h, 'v) rnn"
  assumes "strip line = []"
  shows "session_step model T py_float character_to_num num_to_character (line # rest) g =
           ([Out (NL @ ''Enter seed phrase: '')], Inr Continue, rest, g)
       \<and> interactive_loop model T py_float character_to_num num_to_character (line # rest) g =
           (let (ev', r, rest', g2) =
                  interactive_loop model T py_float character_to_num num_to_character rest g
            in (Out (NL @ ''Enter seed phrase: '') # ev', r, rest', g2))"
proof -
  have s: "session_step model T py_float character_to_num num_to_character (line # rest) g =
           ([Out (NL @ ''Enter seed phrase: '')], Inr Continue, rest, g)"
    using assms by (simp add: session_step_def Let_def lower_def)
  from interactive_loop_continue [OF s] s show ?thesis by simp
qed

theorem empty_seed_skipped_witness:
  "strip ''  '' = []
   \<and> interactive_loop example_model example_torch example_float example_c2n example_n2c
        [''  '', ''quit''] (0::nat) =
        ([Out (NL @ ''Enter seed phrase: ''), Out (NL @ ''Enter seed phrase: '')], Inr (), [], 0)"
proof -
  have s: "strip ''  '' = []" by code_simp
  from empty_seed_skipped [OF s, where model = example_model and T = example_torch
      and py_float = example_float and character_to_num = example_c2n
      and num_to_character = example_n2c and rest = "[''quit'']" and g = 0] s
  show ?thesis by (simp add: interactive_loop_quit)
qed

subsection \<open>The quality analysis\<close>



end
